theory Spec2Isabelle
  imports Main
begin

section \<open>The client-side RPC codec adapter (client/rpc\_codec.go)\<close>

text \<open>
  The adapter \<open>rpcCodec\<close> sits between a codec and a transport client. Both are Go
  interface values whose implementations live in other packages; here each is a table
  of methods over a state of an arbitrary type (\<open>'c\<close> for the codec, \<open>'t\<close> for the
  client), and every theorem holds for all such tables. The body handed to Write and
  filled in by Read is an \<open>interface{}\<close> in the source and a value of an arbitrary
  type \<open>'b\<close> here.
\<close>

subsection \<open>Go values\<close>

type_synonym bytes = "char list"

text \<open>
  A Go \<open>map[string]string\<close>. \<open>None\<close> is the nil map: reading it gives the zero
  value, ranging over it visits nothing, writing an entry into it panics.
\<close>

type_synonym go_map = "(string \<rightharpoonup> string) option"

text \<open>\<open>m[k]\<close> as an expression: the empty string when the key is missing.\<close>

definition go_index :: "go_map \<Rightarrow> string \<Rightarrow> string" where
  "go_index m k = (case m of None \<Rightarrow> [] | Some h \<Rightarrow> (case h k of None \<Rightarrow> [] | Some v \<Rightarrow> v))"

text \<open>The entries a \<open>range\<close> over the map visits.\<close>

definition entries :: "go_map \<Rightarrow> (string \<rightharpoonup> string)" where
  "entries m = (case m of None \<Rightarrow> Map.empty | Some h \<Rightarrow> h)"

datatype 'a outcome = Returns 'a | Panics

text \<open>
  \<open>for k, v := range src { dst[k] = v }\<close>. The keys of a map are distinct, so the
  order in which the entries are visited does not show in the result. The first
  assignment panics when \<open>dst\<close> is nil; with nothing to visit there is no assignment.
\<close>

definition copy_entries :: "go_map \<Rightarrow> go_map \<Rightarrow> go_map outcome" where
  "copy_entries src dst =
     (case dst of
        Some d \<Rightarrow> Returns (Some (d ++ entries src))
      | None \<Rightarrow> if dom (entries src) = {} then Returns None else Panics)"

text \<open>
  A non-nil \<open>error\<close> returned by the codec or by the client is identified with the
  text of its \<open>Error()\<close> method, the only thing the adapter reads from it.
\<close>

type_synonym go_error = string

text \<open>
  The errors the adapter itself can hold: the sentinel \<open>errShutdown\<close>
  (\<open>errs.New("connection is shut down")\<close>) and the result of
  \<open>errors.InternalServerError(id, detail)\<close>.

  Modelled from the spec: package \<open>errors\<close> is not in the source; its
  \<open>InternalServerError\<close> wraps the detail with a fixed component tag, so the value
  is represented by the tag and the detail.
\<close>

datatype error = errShutdown | InternalServerError string string

definition lastStreamResponseError :: string where
  "lastStreamResponseError = ''EOS''"

subsection \<open>Records\<close>

text \<open>
  \<open>request\<close> and \<open>response\<close>; the \<open>next\<close> pointers (a free list of the server)
  are not touched by this file and are left out.
\<close>

record request =
  Service :: string
  ServiceMethod :: string
  Seq :: string

record response =
  ServiceMethod :: string
  Seq :: string
  Error :: string

text \<open>
  Modelled from the spec: \<open>codec.MessageType\<close> and \<open>codec.Message\<close> are declared in
  package \<open>codec\<close>, not in the source. The envelope has the fields the spec lists (Id,
  Target, Method, Type, Header) and the \<open>Error\<close> field that Read reads. The type
  enumeration has the two values the adapter names; \<open>ZeroType\<close> stands for whatever
  a zero-initialised envelope holds.
\<close>

datatype MessageType = ZeroType | Request | Response

record codec_Message =
  Id :: string
  Type :: MessageType
  Target :: string
  Method :: string
  Error :: string
  Header :: go_map

text \<open>Modelled from the spec: \<open>transport.Message\<close>, a body and a header map.\<close>

record transport_Message =
  Header :: go_map
  Body :: bytes

text \<open>
  A \<open>bytes.Buffer\<close> is the list of its unread bytes: \<open>Reset\<close> empties it, \<open>Write\<close>
  appends, \<open>Bytes\<close> returns it.
\<close>

record readWriteCloser =
  wbuf :: bytes
  rbuf :: bytes

text \<open>
  The three methods of \<open>readWriteCloser\<close>, through which a codec reaches the buffers.
  \<open>Read(p)\<close> with \<open>len(p) = n\<close> hands out at most \<open>n\<close> unread bytes and fails on
  an empty buffer (the \<open>io.EOF\<close> of \<open>bytes.Buffer\<close>) unless \<open>n = 0\<close>; \<open>Write\<close>
  and \<open>Close\<close> never fail.
\<close>

definition rwc_Read :: "readWriteCloser \<Rightarrow> nat \<Rightarrow> (bytes \<times> go_error option) \<times> readWriteCloser" where
  "rwc_Read rwc n =
     (if rbuf rwc = [] then (([], if n = 0 then None else Some ''EOF''), rwc)
      else ((take n (rbuf rwc), None), rwc\<lparr>rbuf := drop n (rbuf rwc)\<rparr>))"

definition rwc_Write :: "readWriteCloser \<Rightarrow> bytes \<Rightarrow> (nat \<times> go_error option) \<times> readWriteCloser" where
  "rwc_Write rwc p = ((length p, None), rwc\<lparr>wbuf := wbuf rwc @ p\<rparr>)"

definition rwc_Close :: "readWriteCloser \<Rightarrow> go_error option \<times> readWriteCloser" where
  "rwc_Close rwc = (None, rwc\<lparr>rbuf := [], wbuf := []\<rparr>)"

subsection \<open>The collaborators\<close>

text \<open>
  The codec was constructed over the adapter's \<open>readWriteCloser\<close> and keeps the
  pointer, so each of its methods may read and write both buffers besides its own
  state. \<open>Write\<close> and \<open>ReadHeader\<close> receive a pointer to the envelope and may change
  it; \<open>ReadBody\<close> writes through the body pointer. Each method returns its \<open>error\<close>
  together with everything it may have changed.
\<close>

record ('c, 'b) Codec =
  codec_Write :: "'c \<Rightarrow> readWriteCloser \<Rightarrow> codec_Message \<Rightarrow> 'b
                   \<Rightarrow> go_error option \<times> 'c \<times> readWriteCloser \<times> codec_Message"
  codec_ReadHeader :: "'c \<Rightarrow> readWriteCloser \<Rightarrow> codec_Message \<Rightarrow> MessageType
                   \<Rightarrow> go_error option \<times> 'c \<times> readWriteCloser \<times> codec_Message"
  codec_ReadBody :: "'c \<Rightarrow> readWriteCloser \<Rightarrow> 'b
                   \<Rightarrow> go_error option \<times> 'c \<times> readWriteCloser \<times> 'b"
  codec_Close :: "'c \<Rightarrow> readWriteCloser \<Rightarrow> go_error option \<times> 'c \<times> readWriteCloser"

text \<open>
  The transport client. \<open>Recv\<close> fills in a message that is zero-valued when it is
  called; \<open>Send\<close> is given the message to send and is taken to leave it as it is.
\<close>

record 't Client =
  client_Send :: "'t \<Rightarrow> transport_Message \<Rightarrow> go_error option \<times> 't"
  client_Recv :: "'t \<Rightarrow> go_error option \<times> 't \<times> transport_Message"
  client_Close :: "'t \<Rightarrow> go_error option \<times> 't"

text \<open>
  The calls the adapter makes on its collaborators and on its buffer pair, in the
  order it makes them: one entry for each call statement of the source that is
  reached. The log is not a field of the Go struct; it records which statements ran.
\<close>

datatype 'b call =
    CodecWrite codec_Message 'b
  | ClientSend transport_Message
  | ClientRecv
  | CodecReadHeader codec_Message MessageType
  | CodecReadBody
  | BufClose
  | CodecClose
  | ClientClose

subsection \<open>The adapter\<close>

text \<open>
  \<open>rpcCodec\<close>: the two interface values (method table and current state), the
  transport message \<open>req\<close> points to, and the buffer pair.
\<close>

record ('c, 't, 'b) rpcCodec =
  client_impl :: "'t Client"
  client :: 't
  codec_impl :: "('c, 'b) Codec"
  codec :: 'c
  req :: transport_Message
  buf :: readWriteCloser
  calls :: "'b call list"

text \<open>\<open>newRpcCodec\<close>: fresh empty buffers, the codec constructed over them.\<close>

definition newRpcCodec ::
  "transport_Message \<Rightarrow> 't Client \<Rightarrow> 't \<Rightarrow> ('c, 'b) Codec \<Rightarrow> (readWriteCloser \<Rightarrow> 'c)
     \<Rightarrow> ('c, 't, 'b) rpcCodec" where
  "newRpcCodec rq cl_impl cl cd_impl c =
     (let rwc = \<lparr>wbuf = [], rbuf = []\<rparr>
      in \<lparr>client_impl = cl_impl, client = cl, codec_impl = cd_impl, codec = c rwc,
          req = rq, buf = rwc, calls = []\<rparr>)"

text \<open>The envelope Write builds from the request (lines 111 to 121).\<close>

definition envelope :: "request \<Rightarrow> codec_Message" where
  "envelope rq =
     \<lparr>Id = request.Seq rq,
      Type = Request,
      Target = Service rq,
      Method = request.ServiceMethod rq,
      Error = [],
      Header = Some [''X-Micro-Id'' \<mapsto> request.Seq rq,
                     ''X-Micro-Service'' \<mapsto> Service rq,
                     ''X-Micro-Method'' \<mapsto> request.ServiceMethod rq]\<rparr>"

text \<open>
  \<open>Write\<close>. The result is the returned \<open>error\<close> (or a panic, from the header merge
  into a nil map) and the adapter afterwards. \<open>c.req.Body\<close> is given the write
  side's bytes as they are when the codec returns; the Go slice shares the buffer's
  storage until the next Write resets the buffer, which no property below looks at.
\<close>

definition Write ::
  "('c, 't, 'b) rpcCodec \<Rightarrow> request \<Rightarrow> 'b \<Rightarrow> error option outcome \<times> ('c, 't, 'b) rpcCodec" where
  "Write c rq body =
     (let b0 = (buf c)\<lparr>wbuf := []\<rparr>;
          m = envelope rq;
          (err, cd, b1, m') = codec_Write (codec_impl c) (codec c) b0 m body;
          c1 = c\<lparr>codec := cd, buf := b1, calls := calls c @ [CodecWrite m body]\<rparr>
      in (case err of
            Some e \<Rightarrow> (Returns (Some (InternalServerError ''go.micro.client.codec'' e)), c1)
          | None \<Rightarrow>
             (let r1 = (req c1)\<lparr>Body := wbuf b1\<rparr>
              in (case copy_entries (codec_Message.Header m') (transport_Message.Header r1) of
                    Panics \<Rightarrow> (Panics, c1\<lparr>req := r1\<rparr>)
                  | Returns h \<Rightarrow>
                     (let r2 = r1\<lparr>transport_Message.Header := h\<rparr>;
                          (err', cl) = client_Send (client_impl c1) (client c1) r2;
                          c2 = c1\<lparr>req := r2, client := cl, calls := calls c1 @ [ClientSend r2]\<rparr>
                      in (case err' of
                            Some e \<Rightarrow>
                              (Returns (Some (InternalServerError ''go.micro.client.transport'' e)), c2)
                          | None \<Rightarrow> (Returns None, c2)))))))"

text \<open>
  \<open>Read\<close>. The result is the returned \<open>error\<close>, the adapter, the caller's response
  and the caller's body afterwards.
\<close>

definition zero_Message :: codec_Message where
  "zero_Message = \<lparr>Id = [], Type = ZeroType, Target = [], Method = [], Error = [], Header = None\<rparr>"

definition fallback :: "codec_Message \<Rightarrow> response \<Rightarrow> response" where
  "fallback me r =
     (let r1 = r\<lparr>response.ServiceMethod := Method me\<rparr>;
          r2 = r1\<lparr>response.Seq := Id me\<rparr>;
          r3 = r2\<lparr>response.Error := codec_Message.Error me\<rparr>;
          r4 = (if length (codec_Message.Error me) = 0
                then r3\<lparr>response.Error := go_index (codec_Message.Header me) ''X-Micro-Error''\<rparr>
                else r3);
          r5 = (if length (Method me) = 0
                then r4\<lparr>response.ServiceMethod := go_index (codec_Message.Header me) ''X-Micro-Method''\<rparr>
                else r4);
          r6 = (if length (Id me) = 0
                then r5\<lparr>response.Seq := go_index (codec_Message.Header me) ''X-Micro-Id''\<rparr>
                else r5)
      in r6)"

definition Read ::
  "('c, 't, 'b) rpcCodec \<Rightarrow> response \<Rightarrow> 'b
     \<Rightarrow> error option \<times> ('c, 't, 'b) rpcCodec \<times> response \<times> 'b" where
  "Read c r b =
     (let (err, cl, m) = client_Recv (client_impl c) (client c);
          c1 = c\<lparr>client := cl, calls := calls c @ [ClientRecv]\<rparr>
      in (case err of
            Some e \<Rightarrow> (Some (InternalServerError ''go.micro.client.transport'' e), c1, r, b)
          | None \<Rightarrow>
             (let b0 = (buf c1)\<lparr>rbuf := []\<rparr>;
                  b1 = b0\<lparr>rbuf := rbuf b0 @ Body m\<rparr>;
                  me = zero_Message\<lparr>codec_Message.Header := transport_Message.Header m\<rparr>;
                  (err1, cd, b2, me') = codec_ReadHeader (codec_impl c1) (codec c1) b1 me Response;
                  c2 = c1\<lparr>codec := cd, buf := b2, calls := calls c1 @ [CodecReadHeader me Response]\<rparr>;
                  r' = fallback me' r
              in (case err1 of
                    Some e \<Rightarrow> (Some (InternalServerError ''go.micro.client.codec'' e), c2, r', b)
                  | None \<Rightarrow>
                     (let (err2, cd', b3, b') = codec_ReadBody (codec_impl c2) (codec c2) b2 b;
                          c3 = c2\<lparr>codec := cd', buf := b3, calls := calls c2 @ [CodecReadBody]\<rparr>
                      in (case err2 of
                            Some e \<Rightarrow>
                              (Some (InternalServerError ''go.micro.client.codec'' e), c3, r', b')
                          | None \<Rightarrow> (None, c3, r', b')))))))"

text \<open>
  \<open>Close\<close>. The results of \<open>c.buf.Close()\<close> and of \<open>c.codec.Close()\<close> are not
  looked at; only the client's is.
\<close>

definition Close :: "('c, 't, 'b) rpcCodec \<Rightarrow> error option \<times> ('c, 't, 'b) rpcCodec" where
  "Close c =
     (let (_, b0) = rwc_Close (buf c);
          c1 = c\<lparr>buf := b0, calls := calls c @ [BufClose]\<rparr>;
          (_, cd, b1) = codec_Close (codec_impl c1) (codec c1) (buf c1);
          c2 = c1\<lparr>codec := cd, buf := b1, calls := calls c1 @ [CodecClose]\<rparr>;
          (err, cl) = client_Close (client_impl c2) (client c2);
          c3 = c2\<lparr>client := cl, calls := calls c2 @ [ClientClose]\<rparr>
      in (case err of
            Some e \<Rightarrow> (Some (InternalServerError ''go.micro.client.transport'' e), c3)
          | None \<Rightarrow> (None, c3)))"

subsection \<open>The codec registry\<close>

text \<open>
  The five constructors are functions of five other packages (\<open>proto\<close>, \<open>json\<close>,
  \<open>jsonrpc\<close>, \<open>protorpc\<close> and \<open>bytes\<close>, imported as \<open>raw\<close>), none of them in the
  source; each is represented by its name.
\<close>

datatype NewCodec =
    proto_NewCodec
  | json_NewCodec
  | jsonrpc_NewCodec
  | protorpc_NewCodec
  | raw_NewCodec

definition DefaultContentType :: string where
  "DefaultContentType = ''application/protobuf''"

definition DefaultCodecs :: "string \<rightharpoonup> NewCodec" where
  "DefaultCodecs =
     [''application/protobuf'' \<mapsto> proto_NewCodec,
      ''application/json'' \<mapsto> json_NewCodec,
      ''application/json-rpc'' \<mapsto> jsonrpc_NewCodec,
      ''application/proto-rpc'' \<mapsto> protorpc_NewCodec,
      ''application/octet-stream'' \<mapsto> raw_NewCodec]"

subsection \<open>Collaborators for concrete runs\<close>

text \<open>
  Modelled from the spec: the raw, byte-passthrough codec (package \<open>codec/bytes\<close>,
  not in the source). Its Write puts the body bytes on the write side, its header
  parse leaves the envelope as it is, its ReadBody hands out all bytes of the read
  side, its Close closes the buffer pair. It has no state of its own.
\<close>

definition raw_codec :: "(unit, bytes) Codec" where
  "raw_codec =
     \<lparr>codec_Write = (\<lambda>s rwc m b. (snd (fst (rwc_Write rwc b)), s, snd (rwc_Write rwc b), m)),
      codec_ReadHeader = (\<lambda>s rwc m t. (None, s, rwc, m)),
      codec_ReadBody = (\<lambda>s rwc b. (None, s, rwc\<lparr>rbuf := []\<rparr>, rbuf rwc)),
      codec_Close = (\<lambda>s rwc. (fst (rwc_Close rwc), s, snd (rwc_Close rwc)))\<rparr>"

text \<open>
  A codec whose header parse reports fixed native fields (id, method, error) and a
  fixed result, and is otherwise the raw codec; and one whose Write and Close fail.
\<close>

definition native_codec :: "string \<Rightarrow> string \<Rightarrow> string \<Rightarrow> go_error option \<Rightarrow> (unit, bytes) Codec" where
  "native_codec i mth er res =
     raw_codec\<lparr>codec_ReadHeader :=
       (\<lambda>s rwc m t. (res, s, rwc, m\<lparr>Id := i, Method := mth, codec_Message.Error := er\<rparr>))\<rparr>"

definition failing_codec :: "(unit, bytes) Codec" where
  "failing_codec =
     raw_codec\<lparr>codec_Write := (\<lambda>s rwc m b. (Some ''write failed'', s, rwc, m)),
               codec_Close := (\<lambda>s rwc. (Some ''close failed'', s, rwc))\<rparr>"

text \<open>
  A codec that succeeds like the raw codec but puts a header map of its own choice
  into the envelope it is handed, in Write and in the header parse; and a header map
  for it to put there.
\<close>

definition reheader_codec :: "go_map \<Rightarrow> (unit, bytes) Codec" where
  "reheader_codec h =
     raw_codec\<lparr>codec_Write :=
                 (\<lambda>s rwc m b. (None, s, snd (rwc_Write rwc b), m\<lparr>codec_Message.Header := h\<rparr>)),
               codec_ReadHeader :=
                 (\<lambda>s rwc m t. (None, s, rwc, m\<lparr>codec_Message.Header := h\<rparr>))\<rparr>"

definition codec_header :: go_map where
  "codec_header = Some [''X-Micro-Error'' \<mapsto> ''codec-err'', ''X-Micro-Method'' \<mapsto> ''Codec.M'',
                        ''X-Micro-Id'' \<mapsto> ''99'']"

text \<open>
  Modelled from the spec: the loopback transport, which hands back each sent message
  unchanged. Its state is the queue of messages sent and not yet received.
\<close>

definition loopback :: "(transport_Message list) Client" where
  "loopback =
     \<lparr>client_Send = (\<lambda>q m. (None, q @ [m])),
      client_Recv = (\<lambda>q. case q of
                           [] \<Rightarrow> (Some ''no message'', q, \<lparr>Header = None, Body = []\<rparr>)
                         | m # q' \<Rightarrow> (None, q', m)),
      client_Close = (\<lambda>q. (None, q))\<rparr>"

text \<open>A transport whose every call fails.\<close>

definition broken_client :: "unit Client" where
  "broken_client =
     \<lparr>client_Send = (\<lambda>s m. (Some ''send failed'', s)),
      client_Recv = (\<lambda>s. (Some ''recv failed'', s, \<lparr>Header = None, Body = []\<rparr>)),
      client_Close = (\<lambda>s. (Some ''close failed'', s))\<rparr>"

text \<open>The request of the end-to-end scenario and adapters bound to these collaborators.\<close>

definition greeter :: request where
  "greeter = \<lparr>Service = ''Greeter'', ServiceMethod = ''Greeter.Hello'', Seq = ''1''\<rparr>"

definition empty_response :: response where
  "empty_response = \<lparr>ServiceMethod = [], Seq = [], Error = []\<rparr>"

definition loop_adapter ::
  "(string \<rightharpoonup> string) \<Rightarrow> (unit, bytes) Codec \<Rightarrow> (unit, transport_Message list, bytes) rpcCodec" where
  "loop_adapter h cd = newRpcCodec \<lparr>Header = Some h, Body = []\<rparr> loopback [] cd (\<lambda>rwc. ())"

definition inbox_adapter ::
  "transport_Message \<Rightarrow> (unit, bytes) Codec \<Rightarrow> (unit, transport_Message list, bytes) rpcCodec" where
  "inbox_adapter m cd = newRpcCodec \<lparr>Header = Some Map.empty, Body = []\<rparr> loopback [m] cd (\<lambda>rwc. ())"

definition broken_adapter :: "(unit, bytes) Codec \<Rightarrow> (unit, unit, bytes) rpcCodec" where
  "broken_adapter cd = newRpcCodec \<lparr>Header = Some Map.empty, Body = []\<rparr> broken_client () cd (\<lambda>rwc. ())"

text \<open>The body of the end-to-end scenario, and a received message carrying all three
  fallback keys, with a chosen value under the error key.\<close>

definition world_body :: bytes where
  \<open>world_body = ''{"name":"world"}''\<close>

definition tagged_message :: "string \<Rightarrow> transport_Message" where
  "tagged_message er =
     \<lparr>Header = Some [''X-Micro-Error'' \<mapsto> er, ''X-Micro-Method'' \<mapsto> ''Header.Method'',
                     ''X-Micro-Id'' \<mapsto> ''7''],
      Body = ''x''\<rparr>"

section \<open>Properties\<close>

subsection \<open>Go maps\<close>

lemma entries_simps: "entries None = Map.empty" "entries (Some d) = d"
  by (simp_all add: entries_def)

lemma copy_entries_frame:
  "copy_entries src dst = Returns h \<Longrightarrow> k \<notin> dom (entries src) \<Longrightarrow> entries h k = entries dst k"
  by (auto simp: copy_entries_def entries_def map_add_def split: option.splits if_splits)

lemma copy_entries_dom:
  assumes "copy_entries src dst = Returns h"
  shows "dom (entries dst) \<subseteq> dom (entries h)"
proof (cases dst)
  case None
  then show ?thesis by (simp add: entries_simps)
next
  case (Some d)
  with assms have "h = Some (d ++ entries src)"
    by (simp add: copy_entries_def)
  with Some show ?thesis by (simp add: entries_simps)
qed

lemma copy_entries_alloc:
  "copy_entries src (Some d) = Returns (Some (d ++ entries src))"
  by (simp add: copy_entries_def)

subsection \<open>Unfolding the three methods\<close>

lemma rwc_reset_both:
  "(b::readWriteCloser)\<lparr>rbuf := [], wbuf := []\<rparr> = \<lparr>wbuf = [], rbuf = []\<rparr>"
  by (cases b) simp

lemma Close_unfold:
  "Close c =
     (case fst (client_Close (client_impl c) (client c)) of
        Some e \<Rightarrow> Some (InternalServerError ''go.micro.client.transport'' e)
      | None \<Rightarrow> None,
      c\<lparr>codec := fst (snd (codec_Close (codec_impl c) (codec c) \<lparr>wbuf = [], rbuf = []\<rparr>)),
        buf := snd (snd (codec_Close (codec_impl c) (codec c) \<lparr>wbuf = [], rbuf = []\<rparr>)),
        client := snd (client_Close (client_impl c) (client c)),
        calls := calls c @ [BufClose, CodecClose, ClientClose]\<rparr>)"
  by (simp add: Close_def rwc_Close_def rwc_reset_both Let_def split: prod.splits option.splits)

lemma Write_codec_fail:
  assumes "codec_Write (codec_impl c) (codec c) ((buf c)\<lparr>wbuf := []\<rparr>) (envelope rq) body
             = (Some e, cd, b1, m1)"
  shows "Write c rq body =
           (Returns (Some (InternalServerError ''go.micro.client.codec'' e)),
            c\<lparr>codec := cd, buf := b1, calls := calls c @ [CodecWrite (envelope rq) body]\<rparr>)"
  using assms by (simp add: Write_def Let_def)

lemma Write_panic:
  assumes "codec_Write (codec_impl c) (codec c) ((buf c)\<lparr>wbuf := []\<rparr>) (envelope rq) body
             = (None, cd, b1, m1)"
    and "copy_entries (codec_Message.Header m1) (transport_Message.Header (req c)) = Panics"
  shows "Write c rq body =
           (Panics,
            c\<lparr>codec := cd, buf := b1, calls := calls c @ [CodecWrite (envelope rq) body],
              req := (req c)\<lparr>Body := wbuf b1\<rparr>\<rparr>)"
  using assms by (simp add: Write_def Let_def)

lemma Write_sent:
  assumes "codec_Write (codec_impl c) (codec c) ((buf c)\<lparr>wbuf := []\<rparr>) (envelope rq) body
             = (None, cd, b1, m1)"
    and "copy_entries (codec_Message.Header m1) (transport_Message.Header (req c)) = Returns h"
    and "client_Send (client_impl c) (client c) \<lparr>Header = h, Body = wbuf b1\<rparr> = (err, cl)"
  shows "Write c rq body =
           (Returns (case err of
                       Some e \<Rightarrow> Some (InternalServerError ''go.micro.client.transport'' e)
                     | None \<Rightarrow> None),
            c\<lparr>codec := cd, buf := b1, req := \<lparr>Header = h, Body = wbuf b1\<rparr>, client := cl,
              calls := calls c @ [CodecWrite (envelope rq) body,
                                  ClientSend \<lparr>Header = h, Body = wbuf b1\<rparr>]\<rparr>)"
proof -
  have r: "(req c)\<lparr>Body := wbuf b1, transport_Message.Header := h\<rparr> = \<lparr>Header = h, Body = wbuf b1\<rparr>"
    by (cases "req c") simp
  show ?thesis
    using assms by (simp add: Write_def Let_def r split: option.splits)
qed

lemma Write_header:
  "transport_Message.Header (req (snd (Write c rq body))) =
     (case codec_Write (codec_impl c) (codec c) ((buf c)\<lparr>wbuf := []\<rparr>) (envelope rq) body of
        (err, cd, b1, m1) \<Rightarrow>
          (case err of
             Some e \<Rightarrow> transport_Message.Header (req c)
           | None \<Rightarrow>
               (case copy_entries (codec_Message.Header m1) (transport_Message.Header (req c)) of
                  Panics \<Rightarrow> transport_Message.Header (req c)
                | Returns h \<Rightarrow> h)))"
  by (simp add: Write_def Let_def split: prod.splits option.splits outcome.splits)

lemma Write_header_dom_mono:
  "dom (entries (transport_Message.Header (req c)))
     \<subseteq> dom (entries (transport_Message.Header (req (snd (Write c rq body)))))"
  unfolding Write_header
  by (auto split: prod.splits option.splits outcome.splits dest: copy_entries_dom)

lemma Read_recv_fail:
  assumes "client_Recv (client_impl c) (client c) = (Some e, cl, m)"
  shows "Read c r b =
           (Some (InternalServerError ''go.micro.client.transport'' e),
            c\<lparr>client := cl, calls := calls c @ [ClientRecv]\<rparr>, r, b)"
  using assms by (simp add: Read_def Let_def)

lemma Read_header_fail:
  assumes "client_Recv (client_impl c) (client c) = (None, cl, m)"
    and "codec_ReadHeader (codec_impl c) (codec c) ((buf c)\<lparr>rbuf := Body m\<rparr>)
           (zero_Message\<lparr>codec_Message.Header := transport_Message.Header m\<rparr>) Response
           = (Some e, cd, b2, me)"
  shows "Read c r b =
           (Some (InternalServerError ''go.micro.client.codec'' e),
            c\<lparr>client := cl, codec := cd, buf := b2,
              calls := calls c @ [ClientRecv,
                CodecReadHeader (zero_Message\<lparr>codec_Message.Header := transport_Message.Header m\<rparr>)
                  Response]\<rparr>,
            fallback me r, b)"
  using assms by (simp add: Read_def Let_def)

lemma Read_body:
  assumes "client_Recv (client_impl c) (client c) = (None, cl, m)"
    and "codec_ReadHeader (codec_impl c) (codec c) ((buf c)\<lparr>rbuf := Body m\<rparr>)
           (zero_Message\<lparr>codec_Message.Header := transport_Message.Header m\<rparr>) Response
           = (None, cd, b2, me)"
    and "codec_ReadBody (codec_impl c) cd b2 b = (err2, cd', b3, b')"
  shows "Read c r b =
           (case err2 of
              Some e \<Rightarrow> Some (InternalServerError ''go.micro.client.codec'' e)
            | None \<Rightarrow> None,
            c\<lparr>client := cl, codec := cd', buf := b3,
              calls := calls c @ [ClientRecv,
                CodecReadHeader (zero_Message\<lparr>codec_Message.Header := transport_Message.Header m\<rparr>)
                  Response,
                CodecReadBody]\<rparr>,
            fallback me r, b')"
  using assms by (simp add: Read_def Let_def split: option.splits)

lemma Read_response:
  assumes "client_Recv (client_impl c) (client c) = (None, cl, m)"
    and "codec_ReadHeader (codec_impl c) (codec c) ((buf c)\<lparr>rbuf := Body m\<rparr>)
           (zero_Message\<lparr>codec_Message.Header := transport_Message.Header m\<rparr>) Response
           = (err1, cd, b2, me)"
  shows "fst (snd (snd (Read c r b))) = fallback me r"
  using assms by (simp add: Read_def Let_def split: option.splits prod.splits)

lemma fallback_Error:
  "response.Error (fallback me r) =
     (if codec_Message.Error me = [] then go_index (codec_Message.Header me) ''X-Micro-Error''
      else codec_Message.Error me)"
  by (simp add: fallback_def Let_def)

lemma fallback_ServiceMethod:
  "response.ServiceMethod (fallback me r) =
     (if Method me = [] then go_index (codec_Message.Header me) ''X-Micro-Method'' else Method me)"
  by (simp add: fallback_def Let_def)

lemma fallback_Seq:
  "response.Seq (fallback me r) =
     (if Id me = [] then go_index (codec_Message.Header me) ''X-Micro-Id'' else Id me)"
  by (simp add: fallback_def Let_def)

lemma Write_never_shutdown: "fst (Write c rq body) \<noteq> Returns (Some errShutdown)"
  by (simp add: Write_def Let_def split: prod.splits option.splits outcome.splits)

lemma Read_never_shutdown: "fst (Read c r b) \<noteq> Some errShutdown"
  by (simp add: Read_def Let_def split: prod.splits option.splits)

lemma Write_results:
  "fst (Write c rq body) \<in>
     {Returns None, Panics}
     \<union> range (\<lambda>e. Returns (Some (InternalServerError ''go.micro.client.codec'' e)))
     \<union> range (\<lambda>e. Returns (Some (InternalServerError ''go.micro.client.transport'' e)))"
  by (simp add: Write_def Let_def split: prod.splits option.splits outcome.splits)

lemma Read_results:
  "fst (Read c r b) \<in>
     {None}
     \<union> range (\<lambda>e. Some (InternalServerError ''go.micro.client.codec'' e))
     \<union> range (\<lambda>e. Some (InternalServerError ''go.micro.client.transport'' e))"
  by (simp add: Read_def Let_def split: prod.splits option.splits)

lemma Write_calls_codec: "CodecWrite (envelope rq) body \<in> set (calls (snd (Write c rq body)))"
  by (simp add: Write_def Let_def split: prod.splits option.splits outcome.splits)

lemma Read_calls_Recv: "ClientRecv \<in> set (calls (fst (snd (Read c r b))))"
  by (simp add: Read_def Let_def split: prod.splits option.splits)

subsection \<open>The collaborators of the concrete runs\<close>

lemma loop_adapter_simps:
  "client_impl (loop_adapter h cd) = loopback"
  "client (loop_adapter h cd) = []"
  "codec_impl (loop_adapter h cd) = cd"
  "codec (loop_adapter h cd) = ()"
  "req (loop_adapter h cd) = \<lparr>Header = Some h, Body = []\<rparr>"
  "buf (loop_adapter h cd) = \<lparr>wbuf = [], rbuf = []\<rparr>"
  "calls (loop_adapter h cd) = []"
  by (simp_all add: loop_adapter_def newRpcCodec_def)

lemma inbox_adapter_simps:
  "client_impl (inbox_adapter m cd) = loopback"
  "client (inbox_adapter m cd) = [m]"
  "codec_impl (inbox_adapter m cd) = cd"
  "codec (inbox_adapter m cd) = ()"
  "buf (inbox_adapter m cd) = \<lparr>wbuf = [], rbuf = []\<rparr>"
  "calls (inbox_adapter m cd) = []"
  by (simp_all add: inbox_adapter_def newRpcCodec_def)

lemma broken_adapter_simps:
  "client_impl (broken_adapter cd) = broken_client"
  "client (broken_adapter cd) = ()"
  "codec_impl (broken_adapter cd) = cd"
  "codec (broken_adapter cd) = ()"
  "req (broken_adapter cd) = \<lparr>Header = Some Map.empty, Body = []\<rparr>"
  "buf (broken_adapter cd) = \<lparr>wbuf = [], rbuf = []\<rparr>"
  "calls (broken_adapter cd) = []"
  by (simp_all add: broken_adapter_def newRpcCodec_def)

lemma loopback_Recv: "client_Recv loopback (m # q) = (None, q, m)"
  by (simp add: loopback_def)

lemma loopback_Send: "client_Send loopback q m = (None, q @ [m])"
  by (simp add: loopback_def)

lemma native_ReadHeader:
  "codec_ReadHeader (native_codec i mth er res) s rwc m t
     = (res, s, rwc, m\<lparr>Id := i, Method := mth, codec_Message.Error := er\<rparr>)"
  by (simp add: native_codec_def)

lemma raw_ReadHeader: "codec_ReadHeader raw_codec s rwc m t = (None, s, rwc, m)"
  by (simp add: raw_codec_def)

lemma raw_Write:
  "codec_Write raw_codec s rwc m b = (None, s, rwc\<lparr>wbuf := wbuf rwc @ b\<rparr>, m)"
  by (simp add: raw_codec_def rwc_Write_def)

lemma raw_ReadBody: "codec_ReadBody raw_codec s rwc b = (None, s, rwc\<lparr>rbuf := []\<rparr>, rbuf rwc)"
  by (simp add: raw_codec_def)

lemma failing_Write: "codec_Write failing_codec s rwc m b = (Some ''write failed'', s, rwc, m)"
  by (simp add: failing_codec_def)

lemma broken_Send: "client_Send broken_client s m = (Some ''send failed'', s)"
  by (simp add: broken_client_def)

text \<open>On a bound message whose header map is nil the merge of Write panics.\<close>

lemma Write_nil_header_panics:
  "fst (Write (newRpcCodec \<lparr>Header = None, Body = []\<rparr> loopback [] raw_codec (\<lambda>rwc. ()))
         greeter world_body) = Panics"
  by (simp add: Write_def Let_def newRpcCodec_def raw_codec_def rwc_Write_def copy_entries_def
      entries_def envelope_def)

subsection \<open>The codec registry\<close>

text \<open>
  C9: the registry has exactly five keys, for the protocol-buffer, JSON, JSON-RPC,
  protocol-buffer RPC and raw-bytes encodings; each maps to its own constructor and
  no two keys share one; a string that is not exactly one of the keys (another
  capitalisation, a parameter appended) finds nothing; the default content type is
  one of the keys.
\<close>

theorem DefaultCodecs_registry:
  "dom DefaultCodecs =
     {''application/protobuf'', ''application/json'', ''application/json-rpc'',
      ''application/proto-rpc'', ''application/octet-stream''}
   \<and> DefaultCodecs ''application/protobuf'' = Some proto_NewCodec
   \<and> DefaultCodecs ''application/json'' = Some json_NewCodec
   \<and> DefaultCodecs ''application/json-rpc'' = Some jsonrpc_NewCodec
   \<and> DefaultCodecs ''application/proto-rpc'' = Some protorpc_NewCodec
   \<and> DefaultCodecs ''application/octet-stream'' = Some raw_NewCodec
   \<and> card (dom DefaultCodecs) = 5
   \<and> inj_on DefaultCodecs (dom DefaultCodecs)
   \<and> DefaultContentType \<in> dom DefaultCodecs
   \<and> DefaultCodecs ''Application/JSON'' = None
   \<and> DefaultCodecs ''application/json; charset=utf-8'' = None"
  apply (intro conjI)
  apply (simp_all add: DefaultCodecs_def DefaultContentType_def)
  apply (auto simp: inj_on_def split: if_splits)
  done

subsection \<open>Read: the fallback to the transport header\<close>

text \<open>
  C1, as the code has it: take a Read whose Recv succeeds with message \<open>m\<close>, and let
  \<open>me\<close> be the envelope as the codec's header parse leaves it (whether or not the
  parse fails). The envelope was handed to the codec with \<open>m\<close>'s header map as its
  Header. Each response field whose envelope field is empty holds the value that the
  envelope's Header, as the parse left it, has under the field's canonical key; each
  response field whose envelope field is not empty holds the envelope field; and each
  of the three depends on its own envelope field only. When the parse has left the
  Header as it received it, that value is the transport header's.
\<close>

theorem Read_fallback:
  assumes recv: "client_Recv (client_impl c) (client c) = (None, cl, m)"
    and rh: "codec_ReadHeader (codec_impl c) (codec c) ((buf c)\<lparr>rbuf := Body m\<rparr>)
           (zero_Message\<lparr>codec_Message.Header := transport_Message.Header m\<rparr>) Response
           = (err1, cd, b2, me)"
    and r': "r' = fst (snd (snd (Read c r b)))"
  shows "(codec_Message.Error me = [] \<longrightarrow>
            response.Error r' = go_index (codec_Message.Header me) ''X-Micro-Error'')
       \<and> (Method me = [] \<longrightarrow>
            response.ServiceMethod r' = go_index (codec_Message.Header me) ''X-Micro-Method'')
       \<and> (Id me = [] \<longrightarrow>
            response.Seq r' = go_index (codec_Message.Header me) ''X-Micro-Id'')
       \<and> (codec_Message.Error me \<noteq> [] \<longrightarrow> response.Error r' = codec_Message.Error me)
       \<and> (Method me \<noteq> [] \<longrightarrow> response.ServiceMethod r' = Method me)
       \<and> (Id me \<noteq> [] \<longrightarrow> response.Seq r' = Id me)
       \<and> (codec_Message.Header me = transport_Message.Header m \<longrightarrow>
            (codec_Message.Error me = [] \<longrightarrow>
               response.Error r' = go_index (transport_Message.Header m) ''X-Micro-Error'')
          \<and> (Method me = [] \<longrightarrow>
               response.ServiceMethod r' = go_index (transport_Message.Header m) ''X-Micro-Method'')
          \<and> (Id me = [] \<longrightarrow>
               response.Seq r' = go_index (transport_Message.Header m) ''X-Micro-Id''))"
  by (simp add: r' Read_response [OF recv rh] fallback_Error fallback_ServiceMethod fallback_Seq)

text \<open>
  The run for C1: the received header carries all three keys, the codec reports a
  method of its own and neither an id nor an error. The method is the codec's, the id
  and the error are the header's.
\<close>

theorem Read_fallback_witness:
  "client_Recv loopback [tagged_message ''boom''] = (None, [], tagged_message ''boom'')
   \<and> response.Error (fst (snd (snd (Read
        (inbox_adapter (tagged_message ''boom'') (native_codec [] ''Native.Method'' [] None))
        empty_response [])))) = ''boom''
   \<and> response.ServiceMethod (fst (snd (snd (Read
        (inbox_adapter (tagged_message ''boom'') (native_codec [] ''Native.Method'' [] None))
        empty_response [])))) = ''Native.Method''
   \<and> response.Seq (fst (snd (snd (Read
        (inbox_adapter (tagged_message ''boom'') (native_codec [] ''Native.Method'' [] None))
        empty_response [])))) = ''7''"
proof -
  let ?m = "tagged_message ''boom''"
  let ?a = "inbox_adapter ?m (native_codec [] ''Native.Method'' [] None)"
  let ?me = "zero_Message\<lparr>codec_Message.Header := transport_Message.Header ?m,
               Id := [], Method := ''Native.Method'', codec_Message.Error := []\<rparr>"
  have recv: "client_Recv (client_impl ?a) (client ?a) = (None, [], ?m)"
    by (simp add: inbox_adapter_simps loopback_Recv)
  have rh: "codec_ReadHeader (codec_impl ?a) (codec ?a) ((buf ?a)\<lparr>rbuf := Body ?m\<rparr>)
              (zero_Message\<lparr>codec_Message.Header := transport_Message.Header ?m\<rparr>) Response
            = (None, (), (buf ?a)\<lparr>rbuf := Body ?m\<rparr>, ?me)"
    by (simp add: inbox_adapter_simps native_ReadHeader)
  have keep: "codec_Message.Header ?me = transport_Message.Header ?m"
    by simp
  show ?thesis
    using Read_fallback [OF recv rh refl, where r = empty_response and b = "[]"] keep
    by (simp add: loopback_Recv zero_Message_def tagged_message_def go_index_def)
qed

text \<open>
  C1 as stated fails: the fallback reads the envelope's Header after the header parse,
  so with a codec whose parse puts another map there and leaves the three fields
  empty, no response field holds the transport header's value.
\<close>

theorem Read_fallback_replaced_header:
  "go_index (transport_Message.Header (tagged_message ''boom'')) ''X-Micro-Error'' = ''boom''
   \<and> go_index (transport_Message.Header (tagged_message ''boom'')) ''X-Micro-Method'' = ''Header.Method''
   \<and> go_index (transport_Message.Header (tagged_message ''boom'')) ''X-Micro-Id'' = ''7''
   \<and> fst (Read (inbox_adapter (tagged_message ''boom'') (reheader_codec codec_header))
          empty_response []) = None
   \<and> fst (snd (snd (Read (inbox_adapter (tagged_message ''boom'') (reheader_codec codec_header))
          empty_response [])))
       = \<lparr>ServiceMethod = ''Codec.M'', Seq = ''99'', Error = ''codec-err''\<rparr>"
  by (simp add: Read_def Let_def inbox_adapter_def newRpcCodec_def reheader_codec_def
      codec_header_def raw_codec_def loopback_def fallback_def zero_Message_def go_index_def
      tagged_message_def empty_response_def)

text \<open>
  C7, as the code has it: the stream-end marker is the string \<open>EOS\<close>; when the
  received message's header maps \<open>X-Micro-Error\<close> to it, the codec's header parse
  leaves the envelope's Header as received and the parsed envelope has an empty Error,
  the response's Error is the marker.
\<close>

theorem Read_stream_end:
  assumes recv: "client_Recv (client_impl c) (client c) = (None, cl, m)"
    and rh: "codec_ReadHeader (codec_impl c) (codec c) ((buf c)\<lparr>rbuf := Body m\<rparr>)
           (zero_Message\<lparr>codec_Message.Header := transport_Message.Header m\<rparr>) Response
           = (err1, cd, b2, me)"
    and keep: "codec_Message.Header me = transport_Message.Header m"
    and eos: "entries (transport_Message.Header m) ''X-Micro-Error'' = Some ''EOS''"
    and empty: "codec_Message.Error me = []"
  shows "lastStreamResponseError = ''EOS''
       \<and> response.Error (fst (snd (snd (Read c r b)))) = lastStreamResponseError"
proof -
  have "go_index (transport_Message.Header m) ''X-Micro-Error'' = ''EOS''"
    using eos by (cases "transport_Message.Header m") (simp_all add: go_index_def entries_def)
  then show ?thesis
    by (simp add: Read_response [OF recv rh] fallback_Error empty keep lastStreamResponseError_def)
qed

text \<open>
  The run for C7, with the raw codec, whose header parse changes nothing.
\<close>

theorem Read_stream_end_witness:
  "entries (transport_Message.Header (tagged_message ''EOS'')) ''X-Micro-Error'' = Some ''EOS''
   \<and> response.Error (fst (snd (snd (Read (inbox_adapter (tagged_message ''EOS'') raw_codec)
        empty_response [])))) = ''EOS''"
proof -
  let ?m = "tagged_message ''EOS''"
  let ?a = "inbox_adapter ?m raw_codec"
  let ?me = "zero_Message\<lparr>codec_Message.Header := transport_Message.Header ?m\<rparr>"
  have recv: "client_Recv (client_impl ?a) (client ?a) = (None, [], ?m)"
    by (simp add: inbox_adapter_simps loopback_Recv)
  have rh: "codec_ReadHeader (codec_impl ?a) (codec ?a) ((buf ?a)\<lparr>rbuf := Body ?m\<rparr>) ?me Response
            = (None, (), (buf ?a)\<lparr>rbuf := Body ?m\<rparr>, ?me)"
    by (simp add: inbox_adapter_simps raw_ReadHeader)
  have keep: "codec_Message.Header ?me = transport_Message.Header ?m"
    by simp
  have eos: "entries (transport_Message.Header ?m) ''X-Micro-Error'' = Some ''EOS''"
    by (simp add: tagged_message_def entries_def)
  have empty: "codec_Message.Error ?me = []"
    by (simp add: zero_Message_def)
  show ?thesis
    using Read_stream_end [OF recv rh keep eos empty, where r = empty_response and b = "[]"] eos
    by (simp add: lastStreamResponseError_def)
qed

text \<open>
  C7 as stated fails: with a codec whose header parse sets the envelope's Header to
  nil, the received header maps \<open>X-Micro-Error\<close> to the marker, the envelope's Error
  is empty, and the response's Error is empty.
\<close>

theorem Read_stream_end_lost:
  "entries (transport_Message.Header (tagged_message ''EOS'')) ''X-Micro-Error'' = Some ''EOS''
   \<and> fst (Read (inbox_adapter (tagged_message ''EOS'') (reheader_codec None))
          empty_response []) = None
   \<and> response.Error (fst (snd (snd (Read
          (inbox_adapter (tagged_message ''EOS'') (reheader_codec None)) empty_response []))))
       = []"
  by (simp add: Read_def Let_def inbox_adapter_def newRpcCodec_def reheader_codec_def
      raw_codec_def loopback_def fallback_def zero_Message_def go_index_def entries_def
      tagged_message_def empty_response_def)

text \<open>
  C3: when the codec's ReadHeader fails, Read returns that failure wrapped with the
  codec tag, the response has nevertheless been filled from the envelope with all
  three fallbacks applied, the body is untouched and ReadBody has not been called.
\<close>

theorem Read_header_error:
  assumes recv: "client_Recv (client_impl c) (client c) = (None, cl, m)"
    and rh: "codec_ReadHeader (codec_impl c) (codec c) ((buf c)\<lparr>rbuf := Body m\<rparr>)
           (zero_Message\<lparr>codec_Message.Header := transport_Message.Header m\<rparr>) Response
           = (Some e, cd, b2, me)"
    and res: "Read c r b = (ret, c', r', b')"
  shows "ret = Some (InternalServerError ''go.micro.client.codec'' e)
       \<and> response.ServiceMethod r' =
           (if Method me = [] then go_index (codec_Message.Header me) ''X-Micro-Method''
            else Method me)
       \<and> response.Seq r' =
           (if Id me = [] then go_index (codec_Message.Header me) ''X-Micro-Id'' else Id me)
       \<and> response.Error r' =
           (if codec_Message.Error me = []
            then go_index (codec_Message.Header me) ''X-Micro-Error''
            else codec_Message.Error me)
       \<and> b' = b
       \<and> calls c' = calls c @ [ClientRecv,
            CodecReadHeader (zero_Message\<lparr>codec_Message.Header := transport_Message.Header m\<rparr>)
              Response]"
  using res unfolding Read_header_fail [OF recv rh]
  by (auto simp: fallback_Error fallback_ServiceMethod fallback_Seq)

text \<open>
  The run for C3: the header parse fails and leaves all three native fields empty;
  the caller gets the error and a response filled from the transport header.
\<close>

theorem Read_header_error_witness:
  "fst (Read (inbox_adapter (tagged_message ''boom'') (native_codec [] [] [] (Some ''bad header'')))
        empty_response [])
     = Some (InternalServerError ''go.micro.client.codec'' ''bad header'')
   \<and> fst (snd (snd (Read
        (inbox_adapter (tagged_message ''boom'') (native_codec [] [] [] (Some ''bad header'')))
        empty_response [])))
     = \<lparr>ServiceMethod = ''Header.Method'', Seq = ''7'', Error = ''boom''\<rparr>"
proof -
  let ?m = "tagged_message ''boom''"
  let ?a = "inbox_adapter ?m (native_codec [] [] [] (Some ''bad header''))"
  let ?me = "zero_Message\<lparr>codec_Message.Header := transport_Message.Header ?m,
               Id := [], Method := [], codec_Message.Error := []\<rparr>"
  have recv: "client_Recv (client_impl ?a) (client ?a) = (None, [], ?m)"
    by (simp add: inbox_adapter_simps loopback_Recv)
  have rh: "codec_ReadHeader (codec_impl ?a) (codec ?a) ((buf ?a)\<lparr>rbuf := Body ?m\<rparr>)
              (zero_Message\<lparr>codec_Message.Header := transport_Message.Header ?m\<rparr>) Response
            = (Some ''bad header'', (), (buf ?a)\<lparr>rbuf := Body ?m\<rparr>, ?me)"
    by (simp add: inbox_adapter_simps native_ReadHeader)
  obtain ret c' r' b' where res: "Read ?a empty_response [] = (ret, c', r', b')"
    by (cases "Read ?a empty_response []") auto
  show ?thesis
    using Read_header_error [OF recv rh res] res
    by (cases r') (simp add: zero_Message_def tagged_message_def go_index_def)
qed

subsection \<open>Write\<close>

text \<open>
  C5: when the codec's Write fails, Write returns the failure wrapped with the codec
  tag, the codec call is the only call it has made (no Send), and the transport
  client and the bound message are as before. When the codec's Write succeeds, the
  header merge goes through and Send fails, Write returns that failure wrapped with
  the transport tag after exactly one Send.
\<close>

theorem Write_failure_paths:
  "(\<forall>e cd b1 m1.
      codec_Write (codec_impl c) (codec c) ((buf c)\<lparr>wbuf := []\<rparr>) (envelope rq) body
        = (Some e, cd, b1, m1) \<longrightarrow>
      fst (Write c rq body) = Returns (Some (InternalServerError ''go.micro.client.codec'' e))
      \<and> calls (snd (Write c rq body)) = calls c @ [CodecWrite (envelope rq) body]
      \<and> client (snd (Write c rq body)) = client c
      \<and> req (snd (Write c rq body)) = req c)
   \<and> (\<forall>e cd b1 m1 h cl.
      codec_Write (codec_impl c) (codec c) ((buf c)\<lparr>wbuf := []\<rparr>) (envelope rq) body
        = (None, cd, b1, m1) \<longrightarrow>
      copy_entries (codec_Message.Header m1) (transport_Message.Header (req c)) = Returns h \<longrightarrow>
      client_Send (client_impl c) (client c) \<lparr>Header = h, Body = wbuf b1\<rparr> = (Some e, cl) \<longrightarrow>
      fst (Write c rq body) = Returns (Some (InternalServerError ''go.micro.client.transport'' e))
      \<and> calls (snd (Write c rq body))
          = calls c @ [CodecWrite (envelope rq) body, ClientSend \<lparr>Header = h, Body = wbuf b1\<rparr>])"
proof (intro conjI allI impI)
  fix e cd b1 m1
  assume cw: "codec_Write (codec_impl c) (codec c) ((buf c)\<lparr>wbuf := []\<rparr>) (envelope rq) body
        = (Some e, cd, b1, m1)"
  show "fst (Write c rq body) = Returns (Some (InternalServerError ''go.micro.client.codec'' e))"
    and "calls (snd (Write c rq body)) = calls c @ [CodecWrite (envelope rq) body]"
    and "client (snd (Write c rq body)) = client c"
    and "req (snd (Write c rq body)) = req c"
    by (simp_all add: Write_codec_fail [OF cw])
next
  fix e cd b1 m1 h cl
  assume cw: "codec_Write (codec_impl c) (codec c) ((buf c)\<lparr>wbuf := []\<rparr>) (envelope rq) body
        = (None, cd, b1, m1)"
    and ce: "copy_entries (codec_Message.Header m1) (transport_Message.Header (req c)) = Returns h"
    and sd: "client_Send (client_impl c) (client c) \<lparr>Header = h, Body = wbuf b1\<rparr> = (Some e, cl)"
  show "fst (Write c rq body) = Returns (Some (InternalServerError ''go.micro.client.transport'' e))"
    and "calls (snd (Write c rq body))
          = calls c @ [CodecWrite (envelope rq) body, ClientSend \<lparr>Header = h, Body = wbuf b1\<rparr>]"
    by (simp_all add: Write_sent [OF cw ce sd])
qed

text \<open>
  The runs for C5: a codec whose Write fails over the loopback transport, and the
  raw codec over a transport whose Send fails.
\<close>

theorem Write_failure_paths_witness:
  "fst (codec_Write failing_codec () \<lparr>wbuf = [], rbuf = []\<rparr> (envelope greeter) world_body)
     = Some ''write failed''
   \<and> fst (Write (loop_adapter Map.empty failing_codec) greeter world_body)
       = Returns (Some (InternalServerError ''go.micro.client.codec'' ''write failed''))
   \<and> calls (snd (Write (loop_adapter Map.empty failing_codec) greeter world_body))
       = [CodecWrite (envelope greeter) world_body]
   \<and> client (snd (Write (loop_adapter Map.empty failing_codec) greeter world_body)) = []
   \<and> fst (codec_Write raw_codec () \<lparr>wbuf = [], rbuf = []\<rparr> (envelope greeter) world_body) = None
   \<and> fst (Write (broken_adapter raw_codec) greeter world_body)
       = Returns (Some (InternalServerError ''go.micro.client.transport'' ''send failed''))
   \<and> length (calls (snd (Write (broken_adapter raw_codec) greeter world_body))) = 2"
proof -
  let ?a = "loop_adapter Map.empty failing_codec"
  let ?b = "broken_adapter raw_codec"
  let ?e = "\<lparr>wbuf = [], rbuf = []\<rparr>"
  let ?h = "Some (Map.empty ++ entries (codec_Message.Header (envelope greeter)))"
  have cw1: "codec_Write (codec_impl ?a) (codec ?a) ((buf ?a)\<lparr>wbuf := []\<rparr>) (envelope greeter)
               world_body = (Some ''write failed'', (), ?e, envelope greeter)"
    by (simp add: loop_adapter_simps failing_Write)
  have cw2: "codec_Write (codec_impl ?b) (codec ?b) ((buf ?b)\<lparr>wbuf := []\<rparr>) (envelope greeter)
               world_body = (None, (), ?e\<lparr>wbuf := world_body\<rparr>, envelope greeter)"
    by (simp add: broken_adapter_simps raw_Write)
  have ce2: "copy_entries (codec_Message.Header (envelope greeter))
               (transport_Message.Header (req ?b)) = Returns ?h"
    by (simp add: broken_adapter_simps copy_entries_def)
  have sd2: "client_Send (client_impl ?b) (client ?b)
               \<lparr>Header = ?h, Body = wbuf (?e\<lparr>wbuf := world_body\<rparr>)\<rparr> = (Some ''send failed'', ())"
    by (simp add: broken_adapter_simps broken_Send)
  note t1 = Write_failure_paths [of ?a greeter world_body, THEN conjunct1, rule_format, OF cw1]
  note t2 = Write_failure_paths [of ?b greeter world_body, THEN conjunct2, rule_format, OF cw2 ce2 sd2]
  show ?thesis
    using t1 t2 by (simp add: loop_adapter_simps broken_adapter_simps failing_Write raw_Write)
qed

text \<open>
  C8, as the code has it: in every Write the envelope handed to the codec has Id,
  Target, Method and Type as the request gives them and a Header of exactly the three
  canonical entries. When the codec's Write succeeds and the bound message's header
  map is allocated, the message handed to Send (and left in \<open>req\<close>) has the write
  side's bytes as its Body and, as its Header, the previous header overlaid with the
  entries of the envelope's Header as the codec left it; when the codec left that
  Header as it was, all three canonical entries are in it.
\<close>

theorem Write_envelope_and_message:
  "Id (envelope rq) = request.Seq rq
   \<and> Target (envelope rq) = Service rq
   \<and> Method (envelope rq) = request.ServiceMethod rq
   \<and> Type (envelope rq) = Request
   \<and> dom (entries (codec_Message.Header (envelope rq)))
       = {''X-Micro-Id'', ''X-Micro-Service'', ''X-Micro-Method''}
   \<and> entries (codec_Message.Header (envelope rq)) ''X-Micro-Id'' = Some (request.Seq rq)
   \<and> entries (codec_Message.Header (envelope rq)) ''X-Micro-Service'' = Some (Service rq)
   \<and> entries (codec_Message.Header (envelope rq)) ''X-Micro-Method'' = Some (request.ServiceMethod rq)
   \<and> CodecWrite (envelope rq) body \<in> set (calls (snd (Write c rq body)))
   \<and> (\<forall>cd b1 m1 h.
        codec_Write (codec_impl c) (codec c) ((buf c)\<lparr>wbuf := []\<rparr>) (envelope rq) body
          = (None, cd, b1, m1) \<longrightarrow>
        transport_Message.Header (req c) = Some h \<longrightarrow>
        (\<exists>msg. calls (snd (Write c rq body))
                   = calls c @ [CodecWrite (envelope rq) body, ClientSend msg]
              \<and> req (snd (Write c rq body)) = msg
              \<and> Body msg = wbuf b1
              \<and> transport_Message.Header msg = Some (h ++ entries (codec_Message.Header m1))
              \<and> (codec_Message.Header m1 = codec_Message.Header (envelope rq) \<longrightarrow>
                   entries (transport_Message.Header msg) ''X-Micro-Id'' = Some (request.Seq rq)
                 \<and> entries (transport_Message.Header msg) ''X-Micro-Service'' = Some (Service rq)
                 \<and> entries (transport_Message.Header msg) ''X-Micro-Method''
                     = Some (request.ServiceMethod rq))))"
proof -
  have env: "Id (envelope rq) = request.Seq rq" "Target (envelope rq) = Service rq"
    "Method (envelope rq) = request.ServiceMethod rq" "Type (envelope rq) = Request"
    by (simp_all add: envelope_def)
  have d: "dom (entries (codec_Message.Header (envelope rq)))
           = {''X-Micro-Id'', ''X-Micro-Service'', ''X-Micro-Method''}"
    by (auto simp: envelope_def entries_def)
  have e: "entries (codec_Message.Header (envelope rq)) ''X-Micro-Id'' = Some (request.Seq rq)"
    "entries (codec_Message.Header (envelope rq)) ''X-Micro-Service'' = Some (Service rq)"
    "entries (codec_Message.Header (envelope rq)) ''X-Micro-Method'' = Some (request.ServiceMethod rq)"
    by (simp_all add: envelope_def entries_def)
  have sent: "\<exists>msg. calls (snd (Write c rq body))
                   = calls c @ [CodecWrite (envelope rq) body, ClientSend msg]
              \<and> req (snd (Write c rq body)) = msg
              \<and> Body msg = wbuf b1
              \<and> transport_Message.Header msg = Some (h ++ entries (codec_Message.Header m1))
              \<and> (codec_Message.Header m1 = codec_Message.Header (envelope rq) \<longrightarrow>
                   entries (transport_Message.Header msg) ''X-Micro-Id'' = Some (request.Seq rq)
                 \<and> entries (transport_Message.Header msg) ''X-Micro-Service'' = Some (Service rq)
                 \<and> entries (transport_Message.Header msg) ''X-Micro-Method''
                     = Some (request.ServiceMethod rq))"
    if cw: "codec_Write (codec_impl c) (codec c) ((buf c)\<lparr>wbuf := []\<rparr>) (envelope rq) body
              = (None, cd, b1, m1)"
      and hdr: "transport_Message.Header (req c) = Some h"
    for cd b1 m1 h
  proof -
    let ?h = "Some (h ++ entries (codec_Message.Header m1))"
    let ?msg = "\<lparr>Header = ?h, Body = wbuf b1\<rparr>"
    have ce: "copy_entries (codec_Message.Header m1) (transport_Message.Header (req c)) = Returns ?h"
      by (simp add: hdr copy_entries_alloc)
    obtain err cl where sd: "client_Send (client_impl c) (client c) ?msg = (err, cl)"
      by (cases "client_Send (client_impl c) (client c) ?msg")
    have w: "calls (snd (Write c rq body))
               = calls c @ [CodecWrite (envelope rq) body, ClientSend ?msg]"
      "req (snd (Write c rq body)) = ?msg"
      by (simp_all add: Write_sent [OF cw ce sd])
    have m: "entries ?h ''X-Micro-Id'' = Some (request.Seq rq)
           \<and> entries ?h ''X-Micro-Service'' = Some (Service rq)
           \<and> entries ?h ''X-Micro-Method'' = Some (request.ServiceMethod rq)"
      if keep: "codec_Message.Header m1 = codec_Message.Header (envelope rq)"
      using e by (simp add: keep entries_def map_add_def)
    show ?thesis
      using w m by (intro exI [of _ ?msg]) simp
  qed
  show ?thesis
    by (intro conjI allI impI) (fact env d e | rule Write_calls_codec | erule (1) sent)+
qed

text \<open>
  The run for C8: the end-to-end request through the raw codec, on a bound message
  that already has a Content-Type entry.
\<close>

theorem Write_envelope_and_message_witness:
  "transport_Message.Header (req (loop_adapter [''Content-Type'' \<mapsto> ''application/octet-stream''] raw_codec))
     = Some [''Content-Type'' \<mapsto> ''application/octet-stream'']
   \<and> Body (req (snd (Write
         (loop_adapter [''Content-Type'' \<mapsto> ''application/octet-stream''] raw_codec)
         greeter world_body))) = world_body
   \<and> go_index (transport_Message.Header (req (snd (Write
         (loop_adapter [''Content-Type'' \<mapsto> ''application/octet-stream''] raw_codec)
         greeter world_body)))) ''X-Micro-Id'' = ''1''
   \<and> go_index (transport_Message.Header (req (snd (Write
         (loop_adapter [''Content-Type'' \<mapsto> ''application/octet-stream''] raw_codec)
         greeter world_body)))) ''X-Micro-Service'' = ''Greeter''
   \<and> go_index (transport_Message.Header (req (snd (Write
         (loop_adapter [''Content-Type'' \<mapsto> ''application/octet-stream''] raw_codec)
         greeter world_body)))) ''X-Micro-Method'' = ''Greeter.Hello''"
proof -
  let ?h = "[''Content-Type'' \<mapsto> ''application/octet-stream'']"
  let ?a = "loop_adapter ?h raw_codec"
  let ?e = "\<lparr>wbuf = [], rbuf = []\<rparr>"
  have cw: "codec_Write (codec_impl ?a) (codec ?a) ((buf ?a)\<lparr>wbuf := []\<rparr>) (envelope greeter)
               world_body = (None, (), ?e\<lparr>wbuf := world_body\<rparr>, envelope greeter)"
    by (simp add: loop_adapter_simps raw_Write)
  have hdr: "transport_Message.Header (req ?a) = Some ?h"
    by (simp add: loop_adapter_simps)
  have t: "\<exists>msg. req (snd (Write ?a greeter world_body)) = msg
        \<and> Body msg = wbuf (?e\<lparr>wbuf := world_body\<rparr>)
        \<and> entries (transport_Message.Header msg) ''X-Micro-Id'' = Some (request.Seq greeter)
        \<and> entries (transport_Message.Header msg) ''X-Micro-Service'' = Some (Service greeter)
        \<and> entries (transport_Message.Header msg) ''X-Micro-Method''
             = Some (request.ServiceMethod greeter)"
    using Write_envelope_and_message [of greeter world_body ?a] cw hdr by blast
  then obtain msg where m: "req (snd (Write ?a greeter world_body)) = msg"
    "Body msg = wbuf (?e\<lparr>wbuf := world_body\<rparr>)"
    "entries (transport_Message.Header msg) ''X-Micro-Id'' = Some (request.Seq greeter)"
    "entries (transport_Message.Header msg) ''X-Micro-Service'' = Some (Service greeter)"
    "entries (transport_Message.Header msg) ''X-Micro-Method'' = Some (request.ServiceMethod greeter)"
    by blast
  show ?thesis
    using m hdr
    by (cases "transport_Message.Header msg") (simp_all add: go_index_def entries_def greeter_def)
qed

text \<open>
  C8 as stated fails on two kinds of Write. With a codec whose Write succeeds and
  sets the envelope's Header to nil, Write returns nil after its Send and none of the
  three canonical keys is in the bound message's header. With a bound message whose
  header map is nil, the merge panics after the codec call and nothing is sent.
\<close>

theorem Write_drops_canonical_keys:
  "fst (Write (loop_adapter Map.empty (reheader_codec None)) greeter world_body) = Returns None
   \<and> length (calls (snd (Write (loop_adapter Map.empty (reheader_codec None)) greeter world_body)))
       = 2
   \<and> entries (transport_Message.Header
        (req (snd (Write (loop_adapter Map.empty (reheader_codec None)) greeter world_body))))
        ''X-Micro-Id'' = None
   \<and> entries (transport_Message.Header
        (req (snd (Write (loop_adapter Map.empty (reheader_codec None)) greeter world_body))))
        ''X-Micro-Service'' = None
   \<and> entries (transport_Message.Header
        (req (snd (Write (loop_adapter Map.empty (reheader_codec None)) greeter world_body))))
        ''X-Micro-Method'' = None
   \<and> fst (Write (newRpcCodec \<lparr>Header = None, Body = []\<rparr> loopback [] raw_codec (\<lambda>rwc. ()))
          greeter world_body) = Panics
   \<and> calls (snd (Write (newRpcCodec \<lparr>Header = None, Body = []\<rparr> loopback [] raw_codec (\<lambda>rwc. ()))
          greeter world_body)) = [CodecWrite (envelope greeter) world_body]"
  by (simp add: Write_def Let_def loop_adapter_def newRpcCodec_def reheader_codec_def
      raw_codec_def loopback_def rwc_Write_def copy_entries_def entries_def envelope_def)

text \<open>
  C10: whatever a Write does (codec failure, panic, Send failure or success), every
  key that is not an entry of the envelope's header after the codec call keeps the
  value it had in the bound message's header; no key of that header ever goes away,
  after one Write or after two in a row; and an allocated header map stays
  allocated.
\<close>

theorem Write_header_accumulates:
  assumes cw: "codec_Write (codec_impl c) (codec c) ((buf c)\<lparr>wbuf := []\<rparr>) (envelope rq) body
                 = (err, cd, b1, m1)"
  shows "(\<forall>k. k \<notin> dom (entries (codec_Message.Header m1)) \<longrightarrow>
            entries (transport_Message.Header (req (snd (Write c rq body)))) k
              = entries (transport_Message.Header (req c)) k)
       \<and> dom (entries (transport_Message.Header (req c)))
            \<subseteq> dom (entries (transport_Message.Header (req (snd (Write c rq body)))))
       \<and> dom (entries (transport_Message.Header (req c)))
            \<subseteq> dom (entries (transport_Message.Header
                   (req (snd (Write (snd (Write c rq body)) rq' body')))))
       \<and> (transport_Message.Header (req c) \<noteq> None \<longrightarrow>
            transport_Message.Header (req (snd (Write c rq body))) \<noteq> None)"
proof (intro conjI allI impI)
  fix k assume "k \<notin> dom (entries (codec_Message.Header m1))"
  then show "entries (transport_Message.Header (req (snd (Write c rq body)))) k
              = entries (transport_Message.Header (req c)) k"
    using cw unfolding Write_header
    by (auto split: option.splits outcome.splits dest: copy_entries_frame)
next
  show "dom (entries (transport_Message.Header (req c)))
            \<subseteq> dom (entries (transport_Message.Header (req (snd (Write c rq body)))))"
    by (rule Write_header_dom_mono)
next
  show "dom (entries (transport_Message.Header (req c)))
            \<subseteq> dom (entries (transport_Message.Header
                   (req (snd (Write (snd (Write c rq body)) rq' body')))))"
    by (rule subset_trans [OF Write_header_dom_mono Write_header_dom_mono])
next
  assume "transport_Message.Header (req c) \<noteq> None"
  then show "transport_Message.Header (req (snd (Write c rq body))) \<noteq> None"
    unfolding Write_header
    by (auto simp: copy_entries_def split: prod.splits option.splits outcome.splits)
qed

text \<open>
  The run for C10: a Content-Type entry survives one Write and two.
\<close>

theorem Write_header_accumulates_witness:
  "''Content-Type'' \<notin> dom (entries (codec_Message.Header (envelope greeter)))
   \<and> entries (transport_Message.Header (req (snd (Write
        (loop_adapter [''Content-Type'' \<mapsto> ''application/octet-stream''] raw_codec)
        greeter world_body)))) ''Content-Type'' = Some ''application/octet-stream''
   \<and> ''Content-Type'' \<in> dom (entries (transport_Message.Header (req (snd (Write (snd (Write
        (loop_adapter [''Content-Type'' \<mapsto> ''application/octet-stream''] raw_codec)
        greeter world_body)) greeter world_body)))))
   \<and> transport_Message.Header (req (snd (Write
        (loop_adapter [''Content-Type'' \<mapsto> ''application/octet-stream''] raw_codec)
        greeter world_body))) \<noteq> None"
proof -
  let ?h = "[''Content-Type'' \<mapsto> ''application/octet-stream'']"
  let ?a = "loop_adapter ?h raw_codec"
  let ?e = "\<lparr>wbuf = [], rbuf = []\<rparr>"
  have cw: "codec_Write (codec_impl ?a) (codec ?a) ((buf ?a)\<lparr>wbuf := []\<rparr>) (envelope greeter)
               world_body = (None, (), ?e\<lparr>wbuf := world_body\<rparr>, envelope greeter)"
    by (simp add: loop_adapter_simps raw_Write)
  have k: "''Content-Type'' \<notin> dom (entries (codec_Message.Header (envelope greeter)))"
    by (simp add: envelope_def entries_def)
  have d: "''Content-Type'' \<in> dom (entries (transport_Message.Header (req ?a)))"
    "entries (transport_Message.Header (req ?a)) ''Content-Type'' = Some ''application/octet-stream''"
    "transport_Message.Header (req ?a) \<noteq> None"
    by (simp_all add: loop_adapter_simps entries_def)
  note t = Write_header_accumulates [OF cw, where rq' = greeter and body' = world_body]
  from t k d(2) have 1: "entries (transport_Message.Header (req (snd (Write ?a greeter world_body))))
       ''Content-Type'' = Some ''application/octet-stream''"
    by simp
  from t d(1) have 2: "''Content-Type'' \<in> dom (entries (transport_Message.Header
       (req (snd (Write (snd (Write ?a greeter world_body)) greeter world_body)))))"
    by blast
  from t d(3) have 3: "transport_Message.Header (req (snd (Write ?a greeter world_body))) \<noteq> None"
    by blast
  from k 1 2 3 show ?thesis by blast
qed

subsection \<open>Write followed by Read\<close>

text \<open>
  C6, as the code has it. The bound message's header map is allocated and has
  nothing (or the empty string) under \<open>X-Micro-Error\<close>. The codec's Write succeeds and
  leaves the envelope's Header as it is; the transport accepts the message and hands
  the same message back; the codec's header parse of it succeeds, leaves the Header
  as it is, reports no error and reports an id and a method that are either empty or
  those written; the codec's ReadBody succeeds with the body that was written. Then
  Write and Read both return nil, the response has the request's Seq and
  ServiceMethod and an empty Error, and the decoded body is the written one.
\<close>

theorem Write_Read_round_trip:
  assumes hdr: "transport_Message.Header (req c) = Some h"
    and noerr: "go_index (Some h) ''X-Micro-Error'' = []"
    and cw: "codec_Write (codec_impl c) (codec c) ((buf c)\<lparr>wbuf := []\<rparr>) (envelope rq) body
               = (None, cd1, b1, m1)"
    and keepw: "codec_Message.Header m1 = codec_Message.Header (envelope rq)"
    and msg: "msg = \<lparr>Header = Some (h ++ entries (codec_Message.Header (envelope rq))),
                      Body = wbuf b1\<rparr>"
    and sd: "client_Send (client_impl c) (client c) msg = (None, t1)"
    and rc: "client_Recv (client_impl c) t1 = (None, t2, msg)"
    and rh: "codec_ReadHeader (codec_impl c) cd1 (b1\<lparr>rbuf := Body msg\<rparr>)
               (zero_Message\<lparr>codec_Message.Header := transport_Message.Header msg\<rparr>) Response
               = (None, cd2, b2, me)"
    and keepr: "codec_Message.Header me = transport_Message.Header msg"
    and idc: "Id me = [] \<or> Id me = request.Seq rq"
    and mc: "Method me = [] \<or> Method me = request.ServiceMethod rq"
    and ec: "codec_Message.Error me = []"
    and rb: "codec_ReadBody (codec_impl c) cd2 b2 b = (None, cd3, b3, body)"
  shows "fst (Write c rq body) = Returns None
       \<and> fst (Read (snd (Write c rq body)) r b) = None
       \<and> response.Seq (fst (snd (snd (Read (snd (Write c rq body)) r b)))) = request.Seq rq
       \<and> response.ServiceMethod (fst (snd (snd (Read (snd (Write c rq body)) r b))))
           = request.ServiceMethod rq
       \<and> response.Error (fst (snd (snd (Read (snd (Write c rq body)) r b)))) = []
       \<and> snd (snd (snd (Read (snd (Write c rq body)) r b))) = body"
proof -
  let ?c1 = "c\<lparr>codec := cd1, buf := b1, req := msg, client := t1,
               calls := calls c @ [CodecWrite (envelope rq) body, ClientSend msg]\<rparr>"
  have ce: "copy_entries (codec_Message.Header m1) (transport_Message.Header (req c))
              = Returns (Some (h ++ entries (codec_Message.Header (envelope rq))))"
    by (simp add: hdr keepw copy_entries_alloc)
  have w: "Write c rq body = (Returns None, ?c1)"
    using Write_sent [OF cw ce sd [unfolded msg]] by (simp add: msg)
  have rc1: "client_Recv (client_impl ?c1) (client ?c1) = (None, t2, msg)"
    using rc by simp
  have rh1: "codec_ReadHeader (codec_impl ?c1) (codec ?c1) ((buf ?c1)\<lparr>rbuf := Body msg\<rparr>)
               (zero_Message\<lparr>codec_Message.Header := transport_Message.Header msg\<rparr>) Response
               = (None, cd2, b2, me)"
    using rh by simp
  have rb1: "codec_ReadBody (codec_impl ?c1) cd2 b2 b = (None, cd3, b3, body)"
    using rb by simp
  note rd = Read_body [OF rc1 rh1 rb1, of r]
  have g: "go_index (codec_Message.Header me) ''X-Micro-Id'' = request.Seq rq"
    "go_index (codec_Message.Header me) ''X-Micro-Method'' = request.ServiceMethod rq"
    "go_index (codec_Message.Header me) ''X-Micro-Error'' = []"
    using noerr
    by (simp_all add: keepr msg go_index_def envelope_def entries_def map_add_def)
  have s: "response.Seq (fallback me r) = request.Seq rq"
    using idc g by (auto simp: fallback_Seq)
  have m: "response.ServiceMethod (fallback me r) = request.ServiceMethod rq"
    using mc g by (auto simp: fallback_ServiceMethod)
  have e: "response.Error (fallback me r) = []"
    using ec g by (simp add: fallback_Error)
  show ?thesis
    unfolding w using rd s m e by simp
qed

text \<open>
  The run for C6 is the end-to-end scenario: the raw codec over the loopback
  transport.
\<close>

theorem Write_Read_round_trip_witness:
  "go_index (Some [''Content-Type'' \<mapsto> ''application/octet-stream'']) ''X-Micro-Error'' = []
   \<and> fst (Write (loop_adapter [''Content-Type'' \<mapsto> ''application/octet-stream''] raw_codec)
        greeter world_body) = Returns None
   \<and> Read (snd (Write (loop_adapter [''Content-Type'' \<mapsto> ''application/octet-stream''] raw_codec)
        greeter world_body)) empty_response []
     = (None,
        fst (snd (Read (snd (Write
          (loop_adapter [''Content-Type'' \<mapsto> ''application/octet-stream''] raw_codec)
          greeter world_body)) empty_response [])),
        \<lparr>ServiceMethod = ''Greeter.Hello'', Seq = ''1'', Error = []\<rparr>,
        world_body)"
proof -
  let ?h = "[''Content-Type'' \<mapsto> ''application/octet-stream'']"
  let ?a = "loop_adapter ?h raw_codec"
  let ?e = "\<lparr>wbuf = [], rbuf = []\<rparr>"
  let ?msg = "\<lparr>Header = Some (?h ++ entries (codec_Message.Header (envelope greeter))),
               Body = wbuf (?e\<lparr>wbuf := world_body\<rparr>)\<rparr>"
  let ?me = "zero_Message\<lparr>codec_Message.Header := transport_Message.Header ?msg\<rparr>"
  let ?b1 = "?e\<lparr>wbuf := world_body\<rparr>"
  have hdr: "transport_Message.Header (req ?a) = Some ?h"
    by (simp add: loop_adapter_simps)
  have noerr: "go_index (Some ?h) ''X-Micro-Error'' = []"
    by (simp add: go_index_def)
  have cw: "codec_Write (codec_impl ?a) (codec ?a) ((buf ?a)\<lparr>wbuf := []\<rparr>) (envelope greeter)
               world_body = (None, (), ?b1, envelope greeter)"
    by (simp add: loop_adapter_simps raw_Write)
  have sd: "client_Send (client_impl ?a) (client ?a) ?msg = (None, [?msg])"
    by (simp add: loop_adapter_simps loopback_Send)
  have rc: "client_Recv (client_impl ?a) [?msg] = (None, [], ?msg)"
    by (simp add: loop_adapter_simps loopback_Recv)
  have rh: "codec_ReadHeader (codec_impl ?a) () (?b1\<lparr>rbuf := Body ?msg\<rparr>) ?me Response
               = (None, (), ?b1\<lparr>rbuf := Body ?msg\<rparr>, ?me)"
    by (simp add: loop_adapter_simps raw_ReadHeader)
  have keepr: "codec_Message.Header ?me = transport_Message.Header ?msg"
    by simp
  have idc: "Id ?me = [] \<or> Id ?me = request.Seq greeter"
    and mc: "Method ?me = [] \<or> Method ?me = request.ServiceMethod greeter"
    and ec: "codec_Message.Error ?me = []"
    by (simp_all add: zero_Message_def)
  have rb: "codec_ReadBody (codec_impl ?a) () (?b1\<lparr>rbuf := Body ?msg\<rparr>) []
              = (None, (), ?b1\<lparr>rbuf := Body ?msg, rbuf := []\<rparr>, world_body)"
    by (simp add: loop_adapter_simps raw_ReadBody)
  note t = Write_Read_round_trip [OF hdr noerr cw refl refl sd rc rh keepr idc mc ec rb,
      where r = empty_response]
  obtain ret c' r' b' where
    res: "Read (snd (Write ?a greeter world_body)) empty_response [] = (ret, c', r', b')"
    by (cases "Read (snd (Write ?a greeter world_body)) empty_response []") auto
  show ?thesis
    using t noerr unfolding res by (cases r') (simp add: greeter_def)
qed

text \<open>
  C6 as stated fails: Write merges into the bound message's header and never removes
  an entry, so an \<open>X-Micro-Error\<close> entry that is already there travels with the
  request, comes back over the loopback and, through the fallback, becomes the
  response's Error. Seq, ServiceMethod and the body come back as written.
\<close>

theorem round_trip_stale_error:
  "fst (Write (loop_adapter [''X-Micro-Error'' \<mapsto> ''boom''] raw_codec) greeter world_body)
     = Returns None
   \<and> fst (Read (snd (Write (loop_adapter [''X-Micro-Error'' \<mapsto> ''boom''] raw_codec)
            greeter world_body)) empty_response []) = None
   \<and> fst (snd (snd (Read
        (snd (Write (loop_adapter [''X-Micro-Error'' \<mapsto> ''boom''] raw_codec)
            greeter world_body)) empty_response [])))
       = \<lparr>ServiceMethod = ''Greeter.Hello'', Seq = ''1'', Error = ''boom''\<rparr>
   \<and> snd (snd (snd (Read
        (snd (Write (loop_adapter [''X-Micro-Error'' \<mapsto> ''boom''] raw_codec)
            greeter world_body)) empty_response [])))
       = world_body"
  by (simp add: Write_def Read_def Let_def loop_adapter_def newRpcCodec_def raw_codec_def
      loopback_def rwc_Write_def copy_entries_def entries_def envelope_def fallback_def
      zero_Message_def go_index_def greeter_def empty_response_def)

subsection \<open>Close\<close>

text \<open>
  C4, as the code has it: every Close makes the three release calls, in the order
  buffer pair, codec, transport client, whatever any of them reports; the codec is
  closed over emptied buffers; and the result of Close is decided by the transport
  client alone: its failure wrapped with the transport tag, and nil otherwise. What
  the codec's Close returned takes no part in the result.
\<close>

theorem Close_attempts_all:
  "calls (snd (Close c)) = calls c @ [BufClose, CodecClose, ClientClose]
   \<and> fst (Close c) =
       (case fst (client_Close (client_impl c) (client c)) of
          Some e \<Rightarrow> Some (InternalServerError ''go.micro.client.transport'' e)
        | None \<Rightarrow> None)
   \<and> codec (snd (Close c)) = fst (snd (codec_Close (codec_impl c) (codec c) \<lparr>wbuf = [], rbuf = []\<rparr>))
   \<and> client (snd (Close c)) = snd (client_Close (client_impl c) (client c))"
  by (simp add: Close_unfold)

text \<open>
  C4 as stated fails: with a codec whose Close fails and a transport whose Close
  succeeds, a release has failed and Close returns nil.
\<close>

theorem Close_swallows_codec_failure:
  "fst (codec_Close failing_codec () \<lparr>wbuf = [], rbuf = []\<rparr>) = Some ''close failed''
   \<and> fst (Close (loop_adapter Map.empty failing_codec)) = None"
  by (simp add: Close_unfold loop_adapter_def newRpcCodec_def failing_codec_def loopback_def
      raw_codec_def)

text \<open>
  C2, as the code has it: the adapter keeps no record of having been closed. A Write
  after Close still calls the codec's Write, a Read after Close still calls the
  transport's Recv, and neither ever returns \<open>errShutdown\<close>: what they return is
  nil or a failure wrapped with the codec tag or the transport tag (or, for Write,
  the panic of the header merge).
\<close>

theorem no_shutdown_after_Close:
  "fst (Write (snd (Close c)) rq body) \<noteq> Returns (Some errShutdown)
   \<and> fst (Read (snd (Close c)) r b) \<noteq> Some errShutdown
   \<and> CodecWrite (envelope rq) body \<in> set (calls (snd (Write (snd (Close c)) rq body)))
   \<and> ClientRecv \<in> set (calls (fst (snd (Read (snd (Close c)) r b))))
   \<and> fst (Write (snd (Close c)) rq body) \<in>
       {Returns None, Panics}
       \<union> range (\<lambda>e. Returns (Some (InternalServerError ''go.micro.client.codec'' e)))
       \<union> range (\<lambda>e. Returns (Some (InternalServerError ''go.micro.client.transport'' e)))
   \<and> fst (Read (snd (Close c)) r b) \<in>
       {None}
       \<union> range (\<lambda>e. Some (InternalServerError ''go.micro.client.codec'' e))
       \<union> range (\<lambda>e. Some (InternalServerError ''go.micro.client.transport'' e))"
  using Write_results [of "snd (Close c)" rq body] Read_results [of "snd (Close c)" r b]
  by (simp add: Write_never_shutdown Read_never_shutdown Write_calls_codec Read_calls_Recv)

text \<open>
  C2 as stated fails: after Close, a Write over the loopback transport returns nil,
  and a Read over a transport whose Recv fails returns that failure wrapped with the
  transport tag.
\<close>

theorem after_Close_no_sentinel:
  "fst (Write (snd (Close (loop_adapter Map.empty raw_codec))) greeter world_body) = Returns None
   \<and> fst (Read (snd (Close (broken_adapter raw_codec))) empty_response [])
       = Some (InternalServerError ''go.micro.client.transport'' ''recv failed'')"
  by (simp add: Close_unfold Write_def Read_def Let_def loop_adapter_def broken_adapter_def
      newRpcCodec_def raw_codec_def loopback_def broken_client_def rwc_Close_def rwc_Write_def
      copy_entries_def)

end
